theory Spec2Isabelle
  imports Main
begin

section \<open>The saving API of keras_core: \<^verbatim>\<open>keras_core/saving/saving_api.py\<close>\<close>

text \<open>
  The module holds three dispatchers, \<^verbatim>\<open>save_model\<close>, \<^verbatim>\<open>load_model\<close> and
  \<^verbatim>\<open>load_weights\<close>. Each looks at the suffix of the file path (and, when loading a
  model, at the bytes of the file) and hands the request to a collaborator:
  \<^verbatim>\<open>saving_lib\<close> (the \<^verbatim>\<open>.keras\<close> archive), \<^verbatim>\<open>legacy_h5_format\<close> (HDF5),
  \<^verbatim>\<open>file_utils\<close> (remote file systems), \<^verbatim>\<open>io_utils\<close> (the overwrite prompt),
  \<^verbatim>\<open>zipfile\<close>, \<^verbatim>\<open>os.path\<close>, \<^verbatim>\<open>h5py\<close> and \<^verbatim>\<open>logging\<close>.

  The collaborators are not part of the module. They are the fields of an environment
  record; the file system they read and write is an explicit value of type \<open>'w\<close> that
  is passed to them and returned by those that write. Every call of a collaborator that
  writes, prompts, logs, opens a file or delegates the request is recorded, in call
  order, in a trace. A run of a dispatcher yields the final file system, the trace, and
  either the exception that left the function or its return value.
\<close>

subsection \<open>Python values, keyword arguments, exceptions\<close>

text \<open>
  The values that arrive in \<^verbatim>\<open>**kwargs\<close>. The module only tests them for truth,
  formats them with \<^verbatim>\<open>str()\<close> and passes them on, so an object that is neither
  \<^verbatim>\<open>None\<close>, a bool nor a string is given by its truth value and its \<^verbatim>\<open>str()\<close>.
\<close>

datatype pyval =
    PyNone
  | PyBool bool
  | PyStr string
  | PyObject bool string

fun truthy :: "pyval \<Rightarrow> bool" where
  "truthy PyNone = False"
| "truthy (PyBool b) = b"
| "truthy (PyStr s) = (s \<noteq> [])"
| "truthy (PyObject t s) = t"

fun py_str :: "pyval \<Rightarrow> string" where
  "py_str PyNone = ''None''"
| "py_str (PyBool b) = (if b then ''True'' else ''False'')"
| "py_str (PyStr s) = s"
| "py_str (PyObject t s) = s"

text \<open>\<^verbatim>\<open>**kwargs\<close> is a dict with string keys, kept in insertion order.\<close>

type_synonym kwargs = "(string \<times> pyval) list"

text \<open>\<^verbatim>\<open>kwargs.pop(key, default)\<close>: the value under the key (or the default) and the
  dict without the key.\<close>

definition dict_pop :: "kwargs \<Rightarrow> string \<Rightarrow> pyval \<Rightarrow> pyval \<times> kwargs" where
  "dict_pop kw key dflt =
     ((case map_of kw key of Some v \<Rightarrow> v | None \<Rightarrow> dflt),
      filter (\<lambda>kv. fst kv \<noteq> key) kw)"

datatype py_exception =
    ValueError string
  | ImportError string
  | TypeError string
  | OSError string

text \<open>\<^verbatim>\<open>str.endswith(suffix)\<close> and \<^verbatim>\<open>str.endswith((s1, s2, ...))\<close>.\<close>

definition endswith :: "string \<Rightarrow> string \<Rightarrow> bool" where
  "endswith s suf \<longleftrightarrow>
     length suf \<le> length s \<and> drop (length s - length suf) s = suf"

definition endswith_any :: "string \<Rightarrow> string list \<Rightarrow> bool" where
  "endswith_any s sufs \<longleftrightarrow> list_ex (endswith s) sufs"

text \<open>\<^verbatim>\<open>os.path.basename\<close> and \<^verbatim>\<open>os.path.join\<close> of two components, as
  \<^verbatim>\<open>posixpath\<close> defines them.\<close>

definition os_path_basename :: "string \<Rightarrow> string" where
  "os_path_basename p = rev (takeWhile (\<lambda>c. c \<noteq> CHR ''/'') (rev p))"

definition os_path_join :: "string \<Rightarrow> string \<Rightarrow> string" where
  "os_path_join a b =
     (if take 1 b = ''/'' then b
      else if a = [] \<or> endswith a ''/'' then a @ b
      else a @ ''/'' @ b)"

subsection \<open>HDF5 files and the traced calls\<close>

text \<open>
  What \<^verbatim>\<open>load_weights\<close> reads of an open HDF5 file: the names of the attributes of
  a group (\<^verbatim>\<open>f.attrs\<close>) and its members by name (\<^verbatim>\<open>"model_weights" in f\<close>,
  \<^verbatim>\<open>f["model_weights"]\<close>). A dataset is a stored parameter: its shape and its values.
\<close>

datatype h5node =
    H5Group "string list" "(string \<times> h5node) list"
  | H5Dataset "nat list" "int list"

fun h5_attr_names :: "h5node \<Rightarrow> string list" where
  "h5_attr_names (H5Group a ms) = a"
| "h5_attr_names (H5Dataset sh vs) = []"

fun h5_members :: "h5node \<Rightarrow> (string \<times> h5node) list" where
  "h5_members (H5Group a ms) = ms"
| "h5_members (H5Dataset sh vs) = []"

text \<open>One constructor for each collaborator call that the trace records, with the
  arguments of the call as the source passes them.\<close>

datatype ('m, 'c) event =
    Logging_warning string
  | Ask_to_proceed_with_overwrite string
  | Saving_lib_save_model 'm string
  | Save_model_to_hdf5 'm string bool pyval
  | Get_temp_dir
  | File_utils_copy string string bool
  | Saving_lib_load_model string "'c option" bool bool
  | Load_model_from_hdf5 string
  | Saving_lib_load_weights_only 'm string bool
  | H5py_File string string
  | Load_weights_from_hdf5_group_by_name h5node 'm bool
  | Load_weights_from_hdf5_group h5node 'm

subsection \<open>The collaborators\<close>

text \<open>
  \<open>'w\<close> is the file system, \<open>'m\<close> a model, \<open>'c\<close> a registry of custom objects.
  A collaborator that writes returns the file system it leaves behind and the exception
  it raised, if any. \<open>os_path_exists\<close> is \<open>None\<close> where \<^verbatim>\<open>os.path.exists\<close> raises
  \<^verbatim>\<open>TypeError\<close>. \<open>h5py\<close> is \<open>None\<close> where the import of the module failed (lines
  12 to 15 of the source), and otherwise the function that opens a file for reading.
  \<open>repr_keys\<close> and \<open>repr_kwargs\<close> stand for Python's formatting of
  \<^verbatim>\<open>list(kwargs.keys())\<close> and of \<^verbatim>\<open>kwargs\<close> inside an f-string.
\<close>

record ('w, 'm, 'c) env =
  is_zipfile :: "'w \<Rightarrow> string \<Rightarrow> bool"
  os_path_exists :: "'w \<Rightarrow> string \<Rightarrow> bool option"
  is_remote_path :: "string \<Rightarrow> bool"
  isdir :: "'w \<Rightarrow> string \<Rightarrow> bool"
  file_utils_copy :: "'w \<Rightarrow> string \<Rightarrow> string \<Rightarrow> bool \<Rightarrow> 'w \<times> py_exception option"
  ask_to_proceed_with_overwrite :: "string \<Rightarrow> bool"
  get_temp_dir :: "'w \<Rightarrow> 'w \<times> string"
  saving_lib_save_model :: "'w \<Rightarrow> 'm \<Rightarrow> string \<Rightarrow> 'w \<times> py_exception option"
  saving_lib_load_model ::
    "'w \<Rightarrow> string \<Rightarrow> 'c option \<Rightarrow> bool \<Rightarrow> bool \<Rightarrow> py_exception + 'm"
  saving_lib_load_weights_only ::
    "'w \<Rightarrow> 'm \<Rightarrow> string \<Rightarrow> bool \<Rightarrow> 'm \<times> py_exception option"
  save_model_to_hdf5 ::
    "'w \<Rightarrow> 'm \<Rightarrow> string \<Rightarrow> bool \<Rightarrow> pyval \<Rightarrow> 'w \<times> py_exception option"
  load_model_from_hdf5 :: "'w \<Rightarrow> string \<Rightarrow> py_exception + 'm"
  load_weights_from_hdf5_group_by_name ::
    "h5node \<Rightarrow> 'm \<Rightarrow> bool \<Rightarrow> 'm \<times> py_exception option"
  load_weights_from_hdf5_group :: "h5node \<Rightarrow> 'm \<Rightarrow> 'm \<times> py_exception option"
  h5py :: "('w \<Rightarrow> string \<Rightarrow> py_exception + h5node) option"
  repr_keys :: "string list \<Rightarrow> string"
  repr_kwargs :: "kwargs \<Rightarrow> string"

text \<open>A run: the file system after it, the trace, and the exception (\<open>Inl\<close>) or the
  returned value (\<open>Inr\<close>).\<close>

type_synonym ('w, 'm, 'c, 'a) run = "'w \<times> ('m, 'c) event list \<times> (py_exception + 'a)"

definition raised_or_done :: "py_exception option \<Rightarrow> py_exception + unit" where
  "raised_or_done r = (case r of None \<Rightarrow> Inr () | Some e \<Rightarrow> Inl e)"

subsection \<open>The messages\<close>

definition save_format_warning_msg :: "pyval \<Rightarrow> string" where
  "save_format_warning_msg save_format =
     ''The `save_format` argument is deprecated in Keras Core. '' @
     ''We recommend removing this argument as it can be inferred '' @
     ''from the file path. '' @
     ''Received: save_format='' @ py_str save_format"

definition save_format_error_msg :: "pyval \<Rightarrow> string" where
  "save_format_error_msg save_format =
     ''The `save_format` argument is deprecated in Keras Core. '' @
     ''Please remove this argument and pass a file path with '' @
     ''either `.keras` or `.h5` extension.'' @
     ''Received: save_format='' @ py_str save_format"

definition unsupported_arguments_msg :: "('w, 'm, 'c) env \<Rightarrow> kwargs \<Rightarrow> string" where
  "unsupported_arguments_msg env kw =
     ''The following argument(s) are not supported: '' @ repr_keys env (map fst kw)"

definition legacy_format_warning_msg :: string where
  "legacy_format_warning_msg =
     ''You are saving your model as an HDF5 file via `model.save()`. '' @
     ''This file format is considered legacy. '' @
     ''We recommend using instead the native Keras format, '' @
     ''e.g. `model.save('' @ [CHR 0x27] @ ''my_model.keras'' @ [CHR 0x27] @ '')`.''"

definition invalid_extension_msg :: "string \<Rightarrow> string" where
  "invalid_extension_msg filepath =
     ''Invalid filepath extension for saving. '' @
     ''Please add either a `.keras` extension for the native Keras '' @
     ''format (recommended) or a `.h5` extension. '' @
     ''Use `tf.saved_model.save()` if you want to export a SavedModel '' @
     ''for use with TFLite/TFServing/etc. '' @
     ''Received: filepath='' @ filepath @ ''.''"

definition file_not_found_msg :: "string \<Rightarrow> string" where
  "file_not_found_msg filepath =
     ''File not found: filepath='' @ filepath @ ''. '' @
     ''Please ensure the file is an accessible `.keras` '' @
     ''zip file.''"

definition format_not_supported_msg :: "string \<Rightarrow> string" where
  "format_not_supported_msg filepath =
     ''File format not supported: filepath='' @ filepath @ ''. '' @
     ''Keras Core only supports V3 `.keras` files and '' @
     ''legacy H5 format files (`.h5` extension). '' @
     ''Note that the legacy SavedModel format is not '' @
     ''supported in Keras Core.''"

definition invalid_keyword_arguments_msg :: "('w, 'm, 'c) env \<Rightarrow> kwargs \<Rightarrow> string" where
  "invalid_keyword_arguments_msg env kw =
     ''Invalid keyword arguments: '' @ repr_kwargs env kw"

definition h5py_missing_msg :: string where
  "h5py_missing_msg = ''Loading a H5 file requires `h5py` to be installed.''"

definition weights_format_not_supported_msg :: "string \<Rightarrow> string" where
  "weights_format_not_supported_msg filepath =
     ''File format not supported: filepath='' @ filepath @ ''. '' @
     ''Keras Core only supports V3 `.keras` and `.weights.h5` '' @
     ''files.''"

subsection \<open>\<^verbatim>\<open>save_model\<close> (lines 21 to 112)\<close>

text \<open>Line 99: \<^verbatim>\<open>saving_lib.save_model(model, filepath)\<close>, after the events \<open>tr\<close>.\<close>

definition call_saving_lib_save_model ::
  "('w, 'm, 'c) env \<Rightarrow> 'w \<Rightarrow> ('m, 'c) event list \<Rightarrow> 'm \<Rightarrow> string \<Rightarrow> ('w, 'm, 'c, unit) run"
where
  "call_saving_lib_save_model env w tr model filepath =
     (case saving_lib_save_model env w model filepath of
        (w', r) \<Rightarrow> (w', tr @ [Saving_lib_save_model model filepath], raised_or_done r))"

definition save_model ::
  "('w, 'm, 'c) env \<Rightarrow> 'w \<Rightarrow> 'm \<Rightarrow> string \<Rightarrow> bool \<Rightarrow> kwargs \<Rightarrow> ('w, 'm, 'c, unit) run"
where
  "save_model env w model filepath overwrite kwargs =
     (case dict_pop kwargs ''include_optimizer'' (PyBool True) of
        (include_optimizer, kwargs1) \<Rightarrow>
     (case dict_pop kwargs1 ''save_format'' (PyBool False) of
        (save_format, kwargs2) \<Rightarrow>
     if truthy save_format \<and>
        \<not> (endswith_any filepath [''.h5'', ''.hdf5''] \<or> endswith filepath ''.keras'')
     then (w, [], Inl (ValueError (save_format_error_msg save_format)))
     else
       let tr1 = (if truthy save_format
                  then [Logging_warning (save_format_warning_msg save_format)] else [])
       in
       if kwargs2 \<noteq> []
       then (w, tr1, Inl (ValueError (unsupported_arguments_msg env kwargs2)))
       else
         let tr2 = tr1 @ (if endswith_any filepath [''.h5'', ''.hdf5'']
                          then [Logging_warning legacy_format_warning_msg] else [])
         in
         if endswith filepath ''.keras'' then
           (let exists = (case os_path_exists env w filepath of
                            Some b \<Rightarrow> b | None \<Rightarrow> False)
            in
            if exists \<and> \<not> overwrite then
              (let proceed = ask_to_proceed_with_overwrite env filepath;
                   tr3 = tr2 @ [Ask_to_proceed_with_overwrite filepath]
               in
               if \<not> proceed then (w, tr3, Inr ())
               else call_saving_lib_save_model env w tr3 model filepath)
            else call_saving_lib_save_model env w tr2 model filepath)
         else if endswith_any filepath [''.h5'', ''.hdf5''] then
           (case save_model_to_hdf5 env w model filepath overwrite include_optimizer of
              (w', r) \<Rightarrow>
                (w', tr2 @ [Save_model_to_hdf5 model filepath overwrite include_optimizer],
                 raised_or_done r))
         else (w, tr2, Inl (ValueError (invalid_extension_msg filepath)))))"

subsection \<open>\<^verbatim>\<open>load_model\<close> (lines 118 to 198)\<close>

text \<open>Lines 164 to 169: the local path in a temporary directory and the copy of the
  remote file to it. The result is the file system after the copy, the local path, the
  two traced calls and the exception of the copy, if it raised one.\<close>

definition stage_remote ::
  "('w, 'm, 'c) env \<Rightarrow> 'w \<Rightarrow> string \<Rightarrow> 'w \<times> string \<times> ('m, 'c) event list \<times> py_exception option"
where
  "stage_remote env w filepath =
     (case get_temp_dir env w of
        (w1, tmp) \<Rightarrow>
          let local_path = os_path_join tmp (os_path_basename filepath) in
          (case file_utils_copy env w1 filepath local_path True of
             (w2, r) \<Rightarrow>
               (w2, local_path, [Get_temp_dir, File_utils_copy filepath local_path True], r)))"

text \<open>Lines 176 to 198: the dispatch on \<^verbatim>\<open>is_keras_zip\<close> and on the suffix of
  \<^verbatim>\<open>filepath\<close>, as both stand after the staging block.\<close>

definition load_dispatch ::
  "('w, 'm, 'c) env \<Rightarrow> 'w \<Rightarrow> ('m, 'c) event list \<Rightarrow> string \<Rightarrow> bool \<Rightarrow>
   'c option \<Rightarrow> bool \<Rightarrow> bool \<Rightarrow> ('w, 'm, 'c, 'm) run"
where
  "load_dispatch env w tr filepath is_keras_zip custom_objects compile safe_mode =
     (if is_keras_zip then
        (w, tr @ [Saving_lib_load_model filepath custom_objects compile safe_mode],
         saving_lib_load_model env w filepath custom_objects compile safe_mode)
      else if endswith_any filepath [''.h5'', ''.hdf5''] then
        (w, tr @ [Load_model_from_hdf5 filepath], load_model_from_hdf5 env w filepath)
      else if endswith filepath ''.keras'' then
        (w, tr, Inl (ValueError (file_not_found_msg filepath)))
      else (w, tr, Inl (ValueError (format_not_supported_msg filepath))))"

definition load_model ::
  "('w, 'm, 'c) env \<Rightarrow> 'w \<Rightarrow> string \<Rightarrow> 'c option \<Rightarrow> bool \<Rightarrow> bool \<Rightarrow> ('w, 'm, 'c, 'm) run"
where
  "load_model env w filepath custom_objects compile safe_mode =
     (let is_keras_zip = (endswith filepath ''.keras'' \<and> is_zipfile env w filepath) in
      if is_remote_path env filepath \<and> \<not> isdir env w filepath \<and> \<not> is_keras_zip then
        (case stage_remote env w filepath of
           (w2, local_path, tr, r) \<Rightarrow>
             (case r of
                Some e \<Rightarrow> (w2, tr, Inl e)
              | None \<Rightarrow>
                  if is_zipfile env w2 local_path
                  then load_dispatch env w2 tr local_path True custom_objects compile safe_mode
                  else load_dispatch env w2 tr filepath is_keras_zip
                         custom_objects compile safe_mode))
      else load_dispatch env w [] filepath is_keras_zip custom_objects compile safe_mode)"

subsection \<open>\<^verbatim>\<open>load_weights\<close> (lines 201 to 236)\<close>

text \<open>A run of \<^verbatim>\<open>load_weights\<close> leaves the file system as it is and mutates the
  model: its result is the model after the call, the trace, and the exception or
  \<^verbatim>\<open>None\<close>.\<close>

type_synonym ('m, 'c) weights_run = "'m \<times> ('m, 'c) event list \<times> (py_exception + unit)"

text \<open>Lines 203 to 207 and 209 to 213, which are the same statements.\<close>

definition call_load_weights_only ::
  "('w, 'm, 'c) env \<Rightarrow> 'w \<Rightarrow> 'm \<Rightarrow> string \<Rightarrow> bool \<Rightarrow> kwargs \<Rightarrow> ('m, 'c) weights_run"
where
  "call_load_weights_only env w model filepath skip_mismatch kwargs =
     (if kwargs \<noteq> []
      then (model, [], Inl (ValueError (invalid_keyword_arguments_msg env kwargs)))
      else
        (case saving_lib_load_weights_only env w model filepath skip_mismatch of
           (model', r) \<Rightarrow>
             (model', [Saving_lib_load_weights_only model filepath skip_mismatch],
              raised_or_done r)))"

text \<open>Lines 223 and 224: descend into the group \<^verbatim>\<open>model_weights\<close> when the file has
  no attribute \<^verbatim>\<open>layer_names\<close> and has that member.\<close>

definition weights_root :: "h5node \<Rightarrow> h5node" where
  "weights_root f =
     (if ''layer_names'' \<notin> set (h5_attr_names f)
      then (case map_of (h5_members f) ''model_weights'' of
              Some g \<Rightarrow> g | None \<Rightarrow> f)
      else f)"

definition load_weights ::
  "('w, 'm, 'c) env \<Rightarrow> 'w \<Rightarrow> 'm \<Rightarrow> string \<Rightarrow> bool \<Rightarrow> kwargs \<Rightarrow> ('m, 'c) weights_run"
where
  "load_weights env w model filepath skip_mismatch kwargs =
     (if endswith filepath ''.keras'' then
        call_load_weights_only env w model filepath skip_mismatch kwargs
      else if endswith filepath ''.weights.h5'' then
        call_load_weights_only env w model filepath skip_mismatch kwargs
      else if endswith filepath ''.h5'' \<or> endswith filepath ''.hdf5'' then
        (case dict_pop kwargs ''by_name'' (PyBool False) of
           (by_name, kwargs1) \<Rightarrow>
             if kwargs1 \<noteq> []
             then (model, [], Inl (ValueError (invalid_keyword_arguments_msg env kwargs1)))
             else
               (case h5py env of
                  None \<Rightarrow> (model, [], Inl (ImportError h5py_missing_msg))
                | Some h5py_File \<Rightarrow>
                    (case h5py_File w filepath of
                       Inl e \<Rightarrow> (model, [H5py_File filepath ''r''], Inl e)
                     | Inr f0 \<Rightarrow>
                         let f = weights_root f0 in
                         if truthy by_name then
                           (case load_weights_from_hdf5_group_by_name env f model skip_mismatch of
                              (model', r) \<Rightarrow>
                                (model',
                                 [H5py_File filepath ''r'',
                                  Load_weights_from_hdf5_group_by_name f model skip_mismatch],
                                 raised_or_done r))
                         else
                           (case load_weights_from_hdf5_group env f model of
                              (model', r) \<Rightarrow>
                                (model',
                                 [H5py_File filepath ''r'',
                                  Load_weights_from_hdf5_group f model],
                                 raised_or_done r)))))
      else (model, [], Inl (ValueError (weights_format_not_supported_msg filepath))))"

subsection \<open>Vocabulary of the theorems\<close>

text \<open>The three components of a run.\<close>

definition run_world :: "'w \<times> 't \<times> 'r \<Rightarrow> 'w" where
  "run_world x = fst x"

definition run_trace :: "'w \<times> 't \<times> 'r \<Rightarrow> 't" where
  "run_trace x = fst (snd x)"

definition run_outcome :: "'w \<times> 't \<times> 'r \<Rightarrow> 'r" where
  "run_outcome x = snd (snd x)"

text \<open>The value a keyword has in \<^verbatim>\<open>kwargs\<close> (or its default), the dict without a
  keyword, and the test that a dict has no keyword but those listed.\<close>

definition kw_get :: "kwargs \<Rightarrow> string \<Rightarrow> pyval \<Rightarrow> pyval" where
  "kw_get kw key dflt = fst (dict_pop kw key dflt)"

definition kw_del :: "kwargs \<Rightarrow> string \<Rightarrow> kwargs" where
  "kw_del kw key = snd (dict_pop kw key PyNone)"

definition only_keys :: "string list \<Rightarrow> kwargs \<Rightarrow> bool" where
  "only_keys keys kw \<longleftrightarrow> list_all (\<lambda>kv. fst kv \<in> set keys) kw"

text \<open>The warning that \<^verbatim>\<open>save_model\<close> logs first when \<^verbatim>\<open>save_format\<close> is passed
  with a true value and the path ends with one of the three suffixes.\<close>

definition save_format_events :: "kwargs \<Rightarrow> ('m, 'c) event list" where
  "save_format_events kw =
     (let save_format = kw_get kw ''save_format'' (PyBool False) in
      if truthy save_format
      then [Logging_warning (save_format_warning_msg save_format)] else [])"

text \<open>\<^verbatim>\<open>load_model\<close> stages the file: the condition of line 159 to 163.\<close>

definition is_staged :: "('w, 'm, 'c) env \<Rightarrow> 'w \<Rightarrow> string \<Rightarrow> bool" where
  "is_staged env w filepath \<longleftrightarrow>
     is_remote_path env filepath \<and> \<not> isdir env w filepath \<and>
     \<not> (endswith filepath ''.keras'' \<and> is_zipfile env w filepath)"

text \<open>The copy to the temporary directory raised nothing, and the probe of line 172
  finds that the local copy is no zip archive.\<close>

definition staged_copy_is_no_zip :: "('w, 'm, 'c) env \<Rightarrow> 'w \<Rightarrow> string \<Rightarrow> bool" where
  "staged_copy_is_no_zip env w filepath \<longleftrightarrow>
     (case stage_remote env w filepath of
        (w2, local_path, tr, r) \<Rightarrow> r = None \<and> \<not> is_zipfile env w2 local_path)"

definition staged_world :: "('w, 'm, 'c) env \<Rightarrow> 'w \<Rightarrow> string \<Rightarrow> 'w" where
  "staged_world env w filepath = fst (stage_remote env w filepath)"

definition staged_path :: "('w, 'm, 'c) env \<Rightarrow> 'w \<Rightarrow> string \<Rightarrow> string" where
  "staged_path env w filepath = fst (snd (stage_remote env w filepath))"

text \<open>The two calls of the staging block, as the trace records them.\<close>

definition staging_events :: "('w, 'm, 'c) env \<Rightarrow> 'w \<Rightarrow> string \<Rightarrow> ('m, 'c) event list" where
  "staging_events env w filepath =
     [Get_temp_dir, File_utils_copy filepath (staged_path env w filepath) True]"

subsection \<open>The by-position reader of the legacy backend\<close>

text \<open>A model, for the reader below and for the example environment: the list of its
  parameters, each a shape and its values.\<close>

type_synonym tensor = "nat list \<times> int list"

text \<open>
  Modelled from the spec: \<^verbatim>\<open>legacy_h5_format.load_weights_from_hdf5_group(f, model)\<close>,
  the by-position reader, whose source is not part of the module at hand. Section 6 of
  the specification gives it the two arguments that line 230 passes, and no tolerance
  flag: \<^verbatim>\<open>readWeightsByPosition(fileHandle, model)\<close>. Section 4.6: the parameters are
  paired strictly by the order of the model's list and the order recorded in the file,
  and a count or shape mismatch at any position is fatal. Section 9: parameters are
  applied eagerly, without rollback. The first component of the result is the model
  after the call. \<open>datasets_of\<close> lists the parameters recorded in a group, in the order
  of the file; \<open>pair_by_position\<close> pairs them with those of the model.
\<close>

fun datasets_of :: "(string \<times> h5node) list \<Rightarrow> tensor list" where
  "datasets_of [] = []"
| "datasets_of ((n, H5Dataset sh vs) # ms) = (sh, vs) # datasets_of ms"
| "datasets_of ((n, H5Group a g) # ms) = datasets_of ms"

fun pair_by_position :: "tensor list \<Rightarrow> tensor list \<Rightarrow> tensor list \<times> py_exception option" where
  "pair_by_position [] [] = ([], None)"
| "pair_by_position (s # ss) (p # ps) =
     (if fst s \<noteq> fst p then (p # ps, Some (ValueError ''ShapeMismatch''))
      else (case pair_by_position ss ps of (ps', r) \<Rightarrow> (s # ps', r)))"
| "pair_by_position [] (p # ps) = (p # ps, Some (ValueError ''CountMismatch''))"
| "pair_by_position (s # ss) [] = ([], Some (ValueError ''CountMismatch''))"

definition read_weights_by_position :: "h5node \<Rightarrow> tensor list \<Rightarrow> tensor list \<times> py_exception option" where
  "read_weights_by_position f model = pair_by_position (datasets_of (h5_members f)) model"

subsection \<open>An example environment\<close>

text \<open>
  A small file system in memory, on which the theorems below are instantiated: a file
  is a zip archive, an HDF5 file with its tree, or other bytes. Paths that start with
  \<^verbatim>\<open>gs://\<close> are remote, there are no directories, the user answers no to the
  overwrite prompt, and \<^verbatim>\<open>h5py\<close> is installed.
\<close>

datatype example_file = ZipArchive | Hdf5File h5node | OtherBytes string

type_synonym example_fs = "(string \<times> example_file) list"

definition example_remote :: "string \<Rightarrow> bool" where
  "example_remote p \<longleftrightarrow> take 5 p = ''gs://''"

definition example_copy :: "example_fs \<Rightarrow> string \<Rightarrow> string \<Rightarrow> bool \<Rightarrow> example_fs \<times> py_exception option" where
  "example_copy fs src dst ov =
     (case map_of fs src of
        Some f \<Rightarrow> ((dst, f) # fs, None)
      | None \<Rightarrow> (fs, Some (OSError ''No such file or directory'')))"

definition example_open_h5 :: "example_fs \<Rightarrow> string \<Rightarrow> py_exception + h5node" where
  "example_open_h5 fs p =
     (case map_of fs p of
        Some (Hdf5File f) \<Rightarrow> Inr f
      | _ \<Rightarrow> Inl (OSError ''Unable to open file''))"

definition example_load_h5 :: "example_fs \<Rightarrow> string \<Rightarrow> py_exception + tensor list" where
  "example_load_h5 fs p =
     (case example_open_h5 fs p of
        Inl e \<Rightarrow> Inl e
      | Inr f \<Rightarrow> Inr (datasets_of (h5_members (weights_root f))))"

definition example_env :: "(example_fs, tensor list, unit) env" where
  "example_env =
     \<lparr> is_zipfile = (\<lambda>fs p. \<not> example_remote p \<and> map_of fs p = Some ZipArchive),
       os_path_exists = (\<lambda>fs p. Some (map_of fs p \<noteq> None)),
       is_remote_path = example_remote,
       isdir = (\<lambda>fs p. False),
       file_utils_copy = example_copy,
       ask_to_proceed_with_overwrite = (\<lambda>p. False),
       get_temp_dir = (\<lambda>fs. (fs, ''/tmp/tmpk3ras'')),
       saving_lib_save_model = (\<lambda>fs m p. ((p, ZipArchive) # fs, None)),
       saving_lib_load_model =
         (\<lambda>fs p co c s. if map_of fs p = Some ZipArchive then Inr []
                         else Inl (OSError ''File is not a zip file'')),
       saving_lib_load_weights_only = (\<lambda>fs m p sk. (m, None)),
       save_model_to_hdf5 =
         (\<lambda>fs m p ov io. ((p, Hdf5File (H5Group [''layer_names''] [])) # fs, None)),
       load_model_from_hdf5 = example_load_h5,
       load_weights_from_hdf5_group_by_name = (\<lambda>f m sk. (m, None)),
       load_weights_from_hdf5_group = read_weights_by_position,
       h5py = Some example_open_h5,
       repr_keys = concat,
       repr_kwargs = (\<lambda>kw. concat (map fst kw)) \<rparr>"

text \<open>The same environment on a machine where \<^verbatim>\<open>import h5py\<close> failed.\<close>

definition example_env_without_h5py :: "(example_fs, tensor list, unit) env" where
  "example_env_without_h5py = example_env \<lparr> h5py := None \<rparr>"

text \<open>The stored weights: a kernel of shape \<open>[2, 2]\<close> and a bias of shape \<open>[2]\<close>, in
  the nested layout (a group \<^verbatim>\<open>model_weights\<close> under a root without the attribute
  \<^verbatim>\<open>layer_names\<close>).\<close>

definition example_h5 :: h5node where
  "example_h5 =
     H5Group []
       [(''model_weights'',
         H5Group [''layer_names'']
           [(''dense/kernel'', H5Dataset [2, 2] [1, 2, 3, 4]),
            (''dense/bias'', H5Dataset [2] [5, 6])])]"

definition example_fs :: example_fs where
  "example_fs =
     [(''model.keras'', ZipArchive),
      (''broken.keras'', OtherBytes ''not a zip''),
      (''weights.h5'', Hdf5File example_h5),
      (''gs://bucket/model.h5'', Hdf5File example_h5),
      (''gs://bucket/old.hdf5'', Hdf5File example_h5),
      (''gs://bucket/broken.keras'', OtherBytes ''not a zip''),
      (''gs://bucket/archive.h5'', ZipArchive),
      (''gs://bucket/notes.txt'', OtherBytes ''hello'')]"

text \<open>A live model whose kernel has shape \<open>[3, 2]\<close>, not the stored \<open>[2, 2]\<close>, and
  whose bias has the stored shape.\<close>

definition example_model :: "tensor list" where
  "example_model = [([3, 2], [0, 0, 0, 0, 0, 0]), ([2], [0, 0])]"

section \<open>Facts about suffixes and keyword arguments\<close>

lemma endswith_iff: "endswith s suf \<longleftrightarrow> (\<exists>pre. s = pre @ suf)"
proof
  assume "endswith s suf"
  then have "s = take (length s - length suf) s @ suf"
    by (metis append_take_drop_id endswith_def)
  then show "\<exists>pre. s = pre @ suf" ..
next
  assume "\<exists>pre. s = pre @ suf"
  then show "endswith s suf" by (auto simp: endswith_def)
qed

lemma endswith_last: "endswith s suf \<Longrightarrow> suf \<noteq> [] \<Longrightarrow> last s = last suf"
  by (auto simp: endswith_iff)

lemma endswith_keras_not_h5: "endswith p ''.keras'' \<Longrightarrow> \<not> endswith p ''.h5''"
  using endswith_last [of p "''.keras''"] endswith_last [of p "''.h5''"] by auto

lemma endswith_keras_not_hdf5: "endswith p ''.keras'' \<Longrightarrow> \<not> endswith p ''.hdf5''"
  using endswith_last [of p "''.keras''"] endswith_last [of p "''.hdf5''"] by auto

lemma endswith_keras_not_legacy:
  "endswith p ''.keras'' \<Longrightarrow> \<not> endswith_any p [''.h5'', ''.hdf5'']"
  by (simp add: endswith_any_def endswith_keras_not_h5 endswith_keras_not_hdf5)

lemma endswith_weights_h5: "endswith p ''.weights.h5'' \<Longrightarrow> endswith p ''.h5''"
proof -
  assume "endswith p ''.weights.h5''"
  then obtain pre where "p = pre @ ''.weights.h5''" by (auto simp: endswith_iff)
  then have "p = (pre @ ''.weights'') @ ''.h5''" by simp
  then show ?thesis unfolding endswith_iff by blast
qed

lemma endswith_any_legacy:
  "endswith_any p [''.h5'', ''.hdf5''] \<longleftrightarrow> endswith p ''.h5'' \<or> endswith p ''.hdf5''"
  by (simp add: endswith_any_def)

lemma filter_filter_keys:
  "filter (\<lambda>kv. fst kv \<noteq> b) (filter (\<lambda>kv. fst kv \<noteq> a) kw) = [] \<longleftrightarrow> only_keys [a, b] kw"
  by (induction kw) (auto simp: only_keys_def)

lemma filter_key_empty:
  "filter (\<lambda>kv. fst kv \<noteq> a) kw = [] \<longleftrightarrow> only_keys [a] kw"
  by (induction kw) (auto simp: only_keys_def)

lemma only_keys_rest:
  "only_keys [a, b] kw \<Longrightarrow>
     filter (\<lambda>kv. fst kv \<noteq> b) (filter (\<lambda>kv. fst kv \<noteq> a) kw) = []"
  by (simp only: filter_filter_keys)

lemma map_of_filter_other:
  "a \<noteq> b \<Longrightarrow> map_of (filter (\<lambda>kv. fst kv \<noteq> a) kw) b = map_of kw b"
  by (induction kw) auto

lemma map_of_filter_same: "map_of (filter (\<lambda>kv. fst kv \<noteq> a) kw) a = None"
  by (induction kw) auto

lemma map_of_filter2:
  "map_of (filter (\<lambda>x. fst x \<noteq> a \<and> fst x \<noteq> b) kw) k =
     (if k \<noteq> a \<and> k \<noteq> b then map_of kw k else None)"
  by (induction kw) auto

lemma filter_key_idem:
  "filter (\<lambda>kv. fst kv \<noteq> a) (filter (\<lambda>kv. fst kv \<noteq> a) kw) = filter (\<lambda>kv. fst kv \<noteq> a) kw"
  by (induction kw) auto

lemma filter_fused:
  "filter (\<lambda>x. fst x \<noteq> b \<and> fst x \<noteq> a \<and> fst x \<noteq> b) kw =
   filter (\<lambda>x. fst x \<noteq> a \<and> fst x \<noteq> b) kw"
  by (rule filter_cong) auto

lemma save_format_events_eq:
  "save_format_events kw =
     (if truthy (case map_of kw ''save_format'' of Some v \<Rightarrow> v | None \<Rightarrow> PyBool False)
      then [Logging_warning (save_format_warning_msg
              (case map_of kw ''save_format'' of Some v \<Rightarrow> v | None \<Rightarrow> PyBool False))]
      else [])"
  by (simp add: save_format_events_def kw_get_def dict_pop_def)

text \<open>The definitions of the example environment and of the staging vocabulary, for the
  evaluation of the instances below.\<close>

lemmas example_defs =
  example_env_def example_env_without_h5py_def example_fs_def example_model_def
  example_copy_def example_open_h5_def example_load_h5_def example_remote_def example_h5_def
  read_weights_by_position_def

lemmas staging_defs =
  is_staged_def staged_copy_is_no_zip_def staged_world_def staged_path_def staging_events_def
  stage_remote_def os_path_join_def os_path_basename_def Let_def

section \<open>Saving\<close>

text \<open>
  Claim C7. A save to a \<^verbatim>\<open>.keras\<close> destination that exists, with
  \<^verbatim>\<open>overwrite=False\<close> and a prompt that answers no, returns without raising
  (\<open>Inr ()\<close>), leaves the file system as it was, and never calls
  \<^verbatim>\<open>saving_lib.save_model\<close>: the trace holds the deprecation warning of
  \<^verbatim>\<open>save_format\<close>, if that argument was passed, and the prompt, and nothing else. The
  request carries none but the two keyword arguments that \<^verbatim>\<open>save_model\<close> accepts
  (any other is rejected at line 74, before the prompt).
\<close>

theorem save_model_declined_overwrite:
  assumes "endswith filepath ''.keras''"
    and "only_keys [''include_optimizer'', ''save_format''] kwargs"
    and "os_path_exists env w filepath = Some True"
    and "\<not> ask_to_proceed_with_overwrite env filepath"
  shows "save_model env w model filepath False kwargs =
           (w, save_format_events kwargs @ [Ask_to_proceed_with_overwrite filepath], Inr ())"
  using assms(1,3,4) endswith_keras_not_legacy [OF assms(1)] only_keys_rest [OF assms(2)]
  unfolding save_model_def dict_pop_def save_format_events_eq
  by (simp add: map_of_filter_other)

theorem save_model_declined_overwrite_witness:
  "endswith ''model.keras'' ''.keras'' \<and>
   only_keys [''include_optimizer'', ''save_format''] [(''include_optimizer'', PyBool False)] \<and>
   os_path_exists example_env example_fs ''model.keras'' = Some True \<and>
   \<not> ask_to_proceed_with_overwrite example_env ''model.keras'' \<and>
   save_model example_env example_fs example_model ''model.keras'' False
     [(''include_optimizer'', PyBool False)] =
     (example_fs, [Ask_to_proceed_with_overwrite ''model.keras''], Inr ())"
proof -
  have h1: "endswith ''model.keras'' ''.keras''" by (simp add: endswith_def)
  have h2: "only_keys [''include_optimizer'', ''save_format'']
              [(''include_optimizer'', PyBool False)]"
    by (simp add: only_keys_def)
  have h3: "os_path_exists example_env example_fs ''model.keras'' = Some True"
    by (simp add: example_env_def example_fs_def)
  have h4: "\<not> ask_to_proceed_with_overwrite example_env ''model.keras''"
    by (simp add: example_env_def)
  show ?thesis
    using save_model_declined_overwrite [OF h1 h2 h3 h4, of example_model] h1 h2 h3 h4
    by (simp add: save_format_events_def kw_get_def dict_pop_def)
qed

text \<open>
  Claim C10. A save whose path ends with \<^verbatim>\<open>.weights.h5\<close> goes to the legacy HDF5
  writer: the path also ends with \<^verbatim>\<open>.h5\<close>, so the call logs the warning about the
  legacy format and calls \<^verbatim>\<open>legacy_h5_format.save_model_to_hdf5\<close> with the model,
  the path, \<^verbatim>\<open>overwrite\<close> and \<^verbatim>\<open>include_optimizer\<close>. The trace holds no call of
  \<^verbatim>\<open>saving_lib\<close>. The request carries none but the two keyword arguments that
  \<^verbatim>\<open>save_model\<close> accepts.
\<close>

theorem save_model_weights_h5_legacy:
  assumes "endswith filepath ''.weights.h5''"
    and "only_keys [''include_optimizer'', ''save_format''] kwargs"
  shows "save_model env w model filepath overwrite kwargs =
           (let include_optimizer = kw_get kwargs ''include_optimizer'' (PyBool True) in
            case save_model_to_hdf5 env w model filepath overwrite include_optimizer of
              (w', r) \<Rightarrow>
                (w',
                 save_format_events kwargs @
                 [Logging_warning legacy_format_warning_msg,
                  Save_model_to_hdf5 model filepath overwrite include_optimizer],
                 raised_or_done r))"
proof -
  have h5: "endswith filepath ''.h5''" using assms(1) by (rule endswith_weights_h5)
  then have nk: "\<not> endswith filepath ''.keras''" using endswith_keras_not_h5 by blast
  show ?thesis
    using h5 nk only_keys_rest [OF assms(2)]
    unfolding save_model_def dict_pop_def save_format_events_eq kw_get_def endswith_any_legacy
    by (simp add: map_of_filter_other split: prod.splits)
qed

theorem save_model_weights_h5_legacy_witness:
  "endswith ''m.weights.h5'' ''.weights.h5'' \<and>
   only_keys [''include_optimizer'', ''save_format''] [] \<and>
   save_model example_env example_fs example_model ''m.weights.h5'' True [] =
     ((''m.weights.h5'', Hdf5File (H5Group [''layer_names''] [])) # example_fs,
      [Logging_warning legacy_format_warning_msg,
       Save_model_to_hdf5 example_model ''m.weights.h5'' True (PyBool True)],
      Inr ())"
proof -
  have h1: "endswith ''m.weights.h5'' ''.weights.h5''" by (simp add: endswith_def)
  have h2: "only_keys [''include_optimizer'', ''save_format''] []"
    by (simp add: only_keys_def)
  show ?thesis
    using save_model_weights_h5_legacy [OF h1 h2, of example_env example_fs example_model True]
      h1 h2
    by (simp add: save_format_events_def kw_get_def dict_pop_def example_env_def
          raised_or_done_def)
qed

lemma save_model_unsupported_suffix:
  assumes "\<not> endswith_any filepath [''.keras'', ''.weights.h5'', ''.h5'', ''.hdf5'']"
  shows "save_model env w model filepath overwrite kwargs =
           (let save_format = kw_get kwargs ''save_format'' (PyBool False);
                rest = kw_del (kw_del kwargs ''include_optimizer'') ''save_format''
            in (w, [],
                Inl (ValueError
                  (if truthy save_format then save_format_error_msg save_format
                   else if rest \<noteq> [] then unsupported_arguments_msg env rest
                   else invalid_extension_msg filepath))))"
  using assms
  unfolding save_model_def dict_pop_def kw_del_def kw_get_def endswith_any_def
  by (simp add: map_of_filter_other Let_def)

text \<open>
  Claim C5, as amended. When the path ends with \<^verbatim>\<open>.keras\<close> and the overwrite guard
  lets the save proceed (the destination does not exist, or \<^verbatim>\<open>overwrite\<close> is true, or
  the prompt answers yes), \<^verbatim>\<open>save_model\<close> calls \<^verbatim>\<open>saving_lib.save_model\<close> with
  the model and the path only (line 99). \<^verbatim>\<open>include_optimizer\<close> is taken out of the
  keyword arguments (line 55) and is not passed on: the run is the same as without the
  argument.
\<close>

theorem save_model_keras_write:
  assumes "endswith filepath ''.keras''"
    and "only_keys [''include_optimizer'', ''save_format''] kwargs"
    and "os_path_exists env w filepath = Some True \<and> \<not> overwrite \<longrightarrow>
           ask_to_proceed_with_overwrite env filepath"
  shows "save_model env w model filepath overwrite kwargs =
           (case saving_lib_save_model env w model filepath of
              (w', r) \<Rightarrow>
                (w',
                 save_format_events kwargs @
                 (if os_path_exists env w filepath = Some True \<and> \<not> overwrite
                  then [Ask_to_proceed_with_overwrite filepath] else []) @
                 [Saving_lib_save_model model filepath],
                 raised_or_done r))
         \<and> save_model env w model filepath overwrite kwargs =
           save_model env w model filepath overwrite (kw_del kwargs ''include_optimizer'')"
proof -
  note nl = endswith_keras_not_legacy [OF assms(1)]
  have a: "save_model env w model filepath overwrite kwargs =
           (case saving_lib_save_model env w model filepath of
              (w', r) \<Rightarrow>
                (w',
                 save_format_events kwargs @
                 (if os_path_exists env w filepath = Some True \<and> \<not> overwrite
                  then [Ask_to_proceed_with_overwrite filepath] else []) @
                 [Saving_lib_save_model model filepath],
                 raised_or_done r))"
    using assms(1,3) nl only_keys_rest [OF assms(2)]
    unfolding save_model_def dict_pop_def save_format_events_eq call_saving_lib_save_model_def
    by (cases "os_path_exists env w filepath")
       (auto simp: map_of_filter_other split: prod.splits)
  have b: "save_model env w model filepath overwrite kwargs =
           save_model env w model filepath overwrite (kw_del kwargs ''include_optimizer'')"
    using assms(1) nl
    unfolding save_model_def dict_pop_def kw_del_def
    by (simp add: map_of_filter_other filter_key_idem)
  from a b show ?thesis by blast
qed

text \<open>
  Claim C5 as stated fails: a save to \<^verbatim>\<open>new.keras\<close> with
  \<^verbatim>\<open>include_optimizer=False\<close> and one with \<^verbatim>\<open>include_optimizer=True\<close> make the
  same call of the archive writer, which has no such argument, and leave the same file
  system.
\<close>

theorem include_optimizer_not_forwarded_to_archive:
  "save_model example_env example_fs example_model ''new.keras'' True
     [(''include_optimizer'', PyBool False)] =
     ((''new.keras'', ZipArchive) # example_fs,
      [Saving_lib_save_model example_model ''new.keras''], Inr ()) \<and>
   save_model example_env example_fs example_model ''new.keras'' True
     [(''include_optimizer'', PyBool True)] =
     ((''new.keras'', ZipArchive) # example_fs,
      [Saving_lib_save_model example_model ''new.keras''], Inr ())"
  by (simp add: save_model_def call_saving_lib_save_model_def dict_pop_def example_env_def
        example_fs_def endswith_def endswith_any_def raised_or_done_def)

theorem save_model_keras_write_witness:
  "endswith ''model.keras'' ''.keras'' \<and>
   only_keys [''include_optimizer'', ''save_format''] [(''include_optimizer'', PyBool False)] \<and>
   os_path_exists example_env example_fs ''model.keras'' = Some True \<and>
   ask_to_proceed_with_overwrite
     (example_env \<lparr> ask_to_proceed_with_overwrite := \<lambda>p. True \<rparr>) ''model.keras'' \<and>
   save_model (example_env \<lparr> ask_to_proceed_with_overwrite := \<lambda>p. True \<rparr>)
     example_fs example_model ''model.keras'' False [(''include_optimizer'', PyBool False)] =
     ((''model.keras'', ZipArchive) # example_fs,
      [Ask_to_proceed_with_overwrite ''model.keras'',
       Saving_lib_save_model example_model ''model.keras''],
      Inr ())"
proof -
  let ?env = "example_env \<lparr> ask_to_proceed_with_overwrite := \<lambda>p. True \<rparr>"
  have h1: "endswith ''model.keras'' ''.keras''" by (simp add: endswith_def)
  have h2: "only_keys [''include_optimizer'', ''save_format'']
              [(''include_optimizer'', PyBool False)]"
    by (simp add: only_keys_def)
  have h3: "os_path_exists ?env example_fs ''model.keras'' = Some True"
    by (simp add: example_env_def example_fs_def)
  have h4: "ask_to_proceed_with_overwrite ?env ''model.keras''" by simp
  have h5: "os_path_exists ?env example_fs ''model.keras'' = Some True \<and> \<not> False \<longrightarrow>
      ask_to_proceed_with_overwrite ?env ''model.keras''"
    using h4 by blast
  have w: "saving_lib_save_model ?env example_fs example_model ''model.keras'' =
      ((''model.keras'', ZipArchive) # example_fs, None)"
    by (simp add: example_env_def)
  show ?thesis
    using save_model_keras_write [OF h1 h2 h5, of example_model] h1 h2 h3 h4 w
    by (simp add: save_format_events_def kw_get_def dict_pop_def raised_or_done_def)
qed

text \<open>
  Claim C6, as amended. The value of \<^verbatim>\<open>save_format\<close> is never compared with the
  extension of the path. When the argument is passed with a true value: if the path ends
  with \<^verbatim>\<open>.h5\<close>, \<^verbatim>\<open>.hdf5\<close> or \<^verbatim>\<open>.keras\<close>, the call logs the deprecation
  warning and then runs as it does without the argument; otherwise it raises the
  \<^verbatim>\<open>ValueError\<close> of line 68, with the file system unchanged and nothing logged. When
  the argument is passed with a false value it is ignored: the call runs as it does
  without the argument.
\<close>

theorem save_format_accepted_by_suffix:
  "(truthy (kw_get kwargs ''save_format'' (PyBool False)) \<longrightarrow>
      save_model env w model filepath overwrite kwargs =
           (if endswith_any filepath [''.h5'', ''.hdf5''] \<or> endswith filepath ''.keras''
            then
              (case save_model env w model filepath overwrite (kw_del kwargs ''save_format'') of
                 (w', tr, r) \<Rightarrow>
                   (w',
                    Logging_warning
                      (save_format_warning_msg (kw_get kwargs ''save_format'' (PyBool False))) # tr,
                    r))
            else (w, [], Inl (ValueError
                    (save_format_error_msg (kw_get kwargs ''save_format'' (PyBool False)))))))
   \<and> (\<not> truthy (kw_get kwargs ''save_format'' (PyBool False)) \<longrightarrow>
      save_model env w model filepath overwrite kwargs =
        save_model env w model filepath overwrite (kw_del kwargs ''save_format''))"
proof (intro conjI impI)
  assume "truthy (kw_get kwargs ''save_format'' (PyBool False))"
  then show "save_model env w model filepath overwrite kwargs =
           (if endswith_any filepath [''.h5'', ''.hdf5''] \<or> endswith filepath ''.keras''
            then
              (case save_model env w model filepath overwrite (kw_del kwargs ''save_format'') of
                 (w', tr, r) \<Rightarrow>
                   (w',
                    Logging_warning
                      (save_format_warning_msg (kw_get kwargs ''save_format'' (PyBool False))) # tr,
                    r))
            else (w, [], Inl (ValueError
                    (save_format_error_msg (kw_get kwargs ''save_format'' (PyBool False))))))"
    unfolding save_model_def dict_pop_def kw_del_def kw_get_def call_saving_lib_save_model_def
    by (simp add: map_of_filter_other map_of_filter_same map_of_filter2 filter_fused Let_def
             split: prod.splits)
next
  assume "\<not> truthy (kw_get kwargs ''save_format'' (PyBool False))"
  then show "save_model env w model filepath overwrite kwargs =
        save_model env w model filepath overwrite (kw_del kwargs ''save_format'')"
    unfolding save_model_def dict_pop_def kw_del_def kw_get_def call_saving_lib_save_model_def
    by (simp add: map_of_filter_other map_of_filter_same map_of_filter2 filter_fused Let_def
             split: prod.splits)
qed

text \<open>
  Claim C6 as stated fails: \<^verbatim>\<open>save_format="h5"\<close> with the path \<^verbatim>\<open>new.keras\<close>
  disagrees with the extension, and the call raises nothing: it logs the deprecation
  warning and writes the archive.
\<close>

theorem save_format_disagreeing_with_suffix_accepted:
  "save_model example_env example_fs example_model ''new.keras'' True
     [(''save_format'', PyStr ''h5'')] =
     ((''new.keras'', ZipArchive) # example_fs,
      [Logging_warning (save_format_warning_msg (PyStr ''h5'')),
       Saving_lib_save_model example_model ''new.keras''],
      Inr ())"
  by (simp add: save_model_def call_saving_lib_save_model_def dict_pop_def example_env_def
        example_fs_def endswith_def endswith_any_def raised_or_done_def)

theorem save_format_accepted_by_suffix_witness:
  "truthy (kw_get [(''save_format'', PyStr ''keras'')] ''save_format'' (PyBool False)) \<and>
   save_model example_env example_fs example_model ''out.h5'' True
     [(''save_format'', PyStr ''keras'')] =
     ((''out.h5'', Hdf5File (H5Group [''layer_names''] [])) # example_fs,
      [Logging_warning (save_format_warning_msg (PyStr ''keras'')),
       Logging_warning legacy_format_warning_msg,
       Save_model_to_hdf5 example_model ''out.h5'' True (PyBool True)],
      Inr ()) \<and>
   save_model example_env example_fs example_model ''out.txt'' True
     [(''save_format'', PyStr ''keras'')] =
     (example_fs, [], Inl (ValueError (save_format_error_msg (PyStr ''keras'')))) \<and>
   \<not> truthy (kw_get [(''save_format'', PyNone)] ''save_format'' (PyBool False)) \<and>
   save_model example_env example_fs example_model ''out.h5'' True
     [(''save_format'', PyNone)] =
     ((''out.h5'', Hdf5File (H5Group [''layer_names''] [])) # example_fs,
      [Logging_warning legacy_format_warning_msg,
       Save_model_to_hdf5 example_model ''out.h5'' True (PyBool True)],
      Inr ())"
proof -
  have h1: "truthy (kw_get [(''save_format'', PyStr ''keras'')] ''save_format'' (PyBool False))"
    by (simp add: kw_get_def dict_pop_def)
  have h2: "\<not> truthy (kw_get [(''save_format'', PyNone)] ''save_format'' (PyBool False))"
    by (simp add: kw_get_def dict_pop_def)
  have s: "save_model example_env example_fs example_model ''out.h5'' True [] =
     ((''out.h5'', Hdf5File (H5Group [''layer_names''] [])) # example_fs,
      [Logging_warning legacy_format_warning_msg,
       Save_model_to_hdf5 example_model ''out.h5'' True (PyBool True)],
      Inr ())"
    by (simp add: save_model_def dict_pop_def example_env_def endswith_def endswith_any_def
          raised_or_done_def)
  have e1: "endswith_any ''out.h5'' [''.h5'', ''.hdf5''] \<or> endswith ''out.h5'' ''.keras''"
    by (simp add: endswith_def endswith_any_def)
  have e2: "\<not> (endswith_any ''out.txt'' [''.h5'', ''.hdf5''] \<or> endswith ''out.txt'' ''.keras'')"
    by (simp add: endswith_def endswith_any_def)
  have d1: "kw_del [(''save_format'', PyStr ''keras'')] ''save_format'' = []"
    by (simp add: kw_del_def dict_pop_def)
  have d2: "kw_del [(''save_format'', PyNone)] ''save_format'' = []"
    by (simp add: kw_del_def dict_pop_def)
  have g1: "kw_get [(''save_format'', PyStr ''keras'')] ''save_format'' (PyBool False) =
      PyStr ''keras''"
    by (simp add: kw_get_def dict_pop_def)
  note t1 = save_format_accepted_by_suffix
    [of "[(''save_format'', PyStr ''keras'')]" example_env example_fs example_model
       "''out.h5''" True, THEN conjunct1, THEN mp, OF h1]
  note t2 = save_format_accepted_by_suffix
    [of "[(''save_format'', PyStr ''keras'')]" example_env example_fs example_model
       "''out.txt''" True, THEN conjunct1, THEN mp, OF h1]
  note t3 = save_format_accepted_by_suffix
    [of "[(''save_format'', PyNone)]" example_env example_fs example_model
       "''out.h5''" True, THEN conjunct2, THEN mp, OF h2]
  have a: "save_model example_env example_fs example_model ''out.h5'' True
     [(''save_format'', PyStr ''keras'')] =
     ((''out.h5'', Hdf5File (H5Group [''layer_names''] [])) # example_fs,
      [Logging_warning (save_format_warning_msg (PyStr ''keras'')),
       Logging_warning legacy_format_warning_msg,
       Save_model_to_hdf5 example_model ''out.h5'' True (PyBool True)],
      Inr ())"
    unfolding t1 if_P [OF e1] d1 g1 s by simp
  have b: "save_model example_env example_fs example_model ''out.txt'' True
     [(''save_format'', PyStr ''keras'')] =
     (example_fs, [], Inl (ValueError (save_format_error_msg (PyStr ''keras''))))"
    unfolding t2 if_not_P [OF e2] g1 by simp
  have c: "save_model example_env example_fs example_model ''out.h5'' True
     [(''save_format'', PyNone)] =
     ((''out.h5'', Hdf5File (H5Group [''layer_names''] [])) # example_fs,
      [Logging_warning legacy_format_warning_msg,
       Save_model_to_hdf5 example_model ''out.h5'' True (PyBool True)],
      Inr ())"
    unfolding t3 d2 s by simp
  from h1 a b h2 c show ?thesis by (intro conjI)
qed

section \<open>Loading a model\<close>

lemma stage_remote_eq:
  "stage_remote env w p =
     (staged_world env w p, staged_path env w p, staging_events env w p,
      snd (snd (snd (stage_remote env w p))))"
  by (simp add: stage_remote_def staged_world_def staged_path_def staging_events_def Let_def
        split: prod.splits)

lemma staged_copy_is_no_zip_iff:
  "staged_copy_is_no_zip env w p \<longleftrightarrow>
     snd (snd (snd (stage_remote env w p))) = None \<and>
     \<not> is_zipfile env (staged_world env w p) (staged_path env w p)"
  by (simp add: staged_copy_is_no_zip_def staged_world_def staged_path_def split: prod.splits)

lemma load_model_staged:
  assumes "is_staged env w p" and "staged_copy_is_no_zip env w p"
  shows "load_model env w p co c s =
           load_dispatch env (staged_world env w p) (staging_events env w p) p False co c s"
proof -
  define r where "r = snd (snd (snd (stage_remote env w p)))"
  have st: "stage_remote env w p =
      (staged_world env w p, staged_path env w p, staging_events env w p, r)"
    unfolding r_def by (rule stage_remote_eq)
  from assms(2) st have r: "r = None"
    and nz: "\<not> is_zipfile env (staged_world env w p) (staged_path env w p)"
    by (simp_all add: staged_copy_is_no_zip_iff)
  from assms(1) have c: "is_remote_path env p" "\<not> isdir env w p"
    and z: "(endswith p ''.keras'' \<and> is_zipfile env w p) = False"
    by (simp_all add: is_staged_def)
  show ?thesis
    unfolding load_model_def Let_def z using c st r nz by simp
qed

lemma load_model_local:
  assumes "\<not> (is_remote_path env p \<and> \<not> isdir env w p)"
  shows "load_model env w p co c s =
           load_dispatch env w [] p (endswith p ''.keras'' \<and> is_zipfile env w p) co c s"
  unfolding load_model_def Let_def using assms by auto

lemma file_not_found_msg_distinct: "file_not_found_msg p \<noteq> format_not_supported_msg q"
  by (simp add: file_not_found_msg_def format_not_supported_msg_def)

lemma load_dispatch_keras_never_legacy:
  assumes "endswith p ''.keras''"
    and "\<forall>q. Load_model_from_hdf5 q \<notin> set tr"
  shows "Load_model_from_hdf5 q \<notin> set (run_trace (load_dispatch env w tr p z co c s))"
  using assms endswith_keras_not_legacy [OF assms(1)]
  by (simp add: load_dispatch_def run_trace_def)

lemma load_dispatch_archive_never_legacy:
  assumes "\<forall>q. Load_model_from_hdf5 q \<notin> set tr"
  shows "Load_model_from_hdf5 q \<notin> set (run_trace (load_dispatch env w tr p True co c s))"
  using assms by (simp add: load_dispatch_def run_trace_def)

lemma load_model_keras_never_legacy:
  assumes "endswith p ''.keras''"
  shows "Load_model_from_hdf5 q \<notin> set (run_trace (load_model env w p co c s))"
proof -
  define r where "r = snd (snd (snd (stage_remote env w p)))"
  have st: "stage_remote env w p =
      (staged_world env w p, staged_path env w p, staging_events env w p, r)"
    unfolding r_def by (rule stage_remote_eq)
  have ev: "\<forall>q. Load_model_from_hdf5 q \<notin> set (staging_events env w p)"
    by (simp add: staging_events_def)
  have d1: "Load_model_from_hdf5 q \<notin>
      set (run_trace (load_dispatch env w' (staging_events env w p) p z co c s))" for w' z
    using load_dispatch_keras_never_legacy [OF assms ev] .
  have d2: "Load_model_from_hdf5 q \<notin>
      set (run_trace (load_dispatch env w' (staging_events env w p) p' True co c s))" for w' p'
    using load_dispatch_archive_never_legacy [OF ev] .
  have d3: "Load_model_from_hdf5 q \<notin> set (run_trace (load_dispatch env w [] p z co c s))" for z
    using load_dispatch_keras_never_legacy [OF assms, of "[]"] by simp
  show ?thesis
    unfolding load_model_def Let_def st
    using d1 d2 d3 ev
    by (auto simp: run_trace_def split: option.splits)
qed

text \<open>
  Claim C1. For a path that ends with \<^verbatim>\<open>.keras\<close>, \<^verbatim>\<open>load_model\<close> never calls
  \<^verbatim>\<open>legacy_h5_format.load_model_from_hdf5\<close>, whatever the probes and the staging do.
  When every zip probe that the call makes fails (the probe of the path and, for a
  remote file that is no directory, the probe of the copy that was staged), the call
  raises the \<^verbatim>\<open>ValueError\<close> of line 186, "File not found ... Please ensure the file is
  an accessible `.keras` zip file", whose message differs from that of the
  unsupported-format error of line 192 for every path.
\<close>

theorem load_model_corrupt_keras:
  assumes "endswith filepath ''.keras''"
  shows "(\<forall>q. Load_model_from_hdf5 q \<notin>
              set (run_trace (load_model env w filepath custom_objects compile safe_mode)))
       \<and> (\<not> is_zipfile env w filepath \<and>
          (is_remote_path env filepath \<and> \<not> isdir env w filepath \<longrightarrow>
             staged_copy_is_no_zip env w filepath) \<longrightarrow>
          run_outcome (load_model env w filepath custom_objects compile safe_mode) =
            Inl (ValueError (file_not_found_msg filepath))
          \<and> (\<forall>q. ValueError (file_not_found_msg filepath) \<noteq>
                   ValueError (format_not_supported_msg q)))"
proof -
  note nl = endswith_keras_not_legacy [OF assms]
  have a: "\<forall>q. Load_model_from_hdf5 q \<notin>
              set (run_trace (load_model env w filepath custom_objects compile safe_mode))"
    by (simp add: load_model_keras_never_legacy [OF assms])
  have b: "run_outcome (load_model env w filepath custom_objects compile safe_mode) =
            Inl (ValueError (file_not_found_msg filepath))"
    if nz: "\<not> is_zipfile env w filepath"
      and st: "is_remote_path env filepath \<and> \<not> isdir env w filepath \<longrightarrow>
             staged_copy_is_no_zip env w filepath"
  proof (cases "is_remote_path env filepath \<and> \<not> isdir env w filepath")
    case True
    then have "is_staged env w filepath" using nz by (simp add: is_staged_def)
    moreover have "staged_copy_is_no_zip env w filepath" using True st by blast
    ultimately show ?thesis
      using assms nl by (simp add: load_model_staged load_dispatch_def run_outcome_def)
  next
    case False
    then show ?thesis
      using assms nl nz by (simp add: load_model_local load_dispatch_def run_outcome_def)
  qed
  from a b show ?thesis by (simp add: file_not_found_msg_distinct)
qed

theorem load_model_corrupt_keras_witness:
  "endswith ''gs://bucket/broken.keras'' ''.keras'' \<and>
   \<not> is_zipfile example_env example_fs ''gs://bucket/broken.keras'' \<and>
   is_remote_path example_env ''gs://bucket/broken.keras'' \<and>
   \<not> isdir example_env example_fs ''gs://bucket/broken.keras'' \<and>
   staged_copy_is_no_zip example_env example_fs ''gs://bucket/broken.keras'' \<and>
   run_outcome (load_model example_env example_fs ''gs://bucket/broken.keras'' None True True) =
     Inl (ValueError (file_not_found_msg ''gs://bucket/broken.keras'')) \<and>
   Load_model_from_hdf5 ''gs://bucket/broken.keras'' \<notin>
     set (run_trace (load_model example_env example_fs ''gs://bucket/broken.keras'' None True True))"
proof -
  have h1: "endswith ''gs://bucket/broken.keras'' ''.keras''"
    by (simp add: endswith_def)
  have h2: "\<not> is_zipfile example_env example_fs ''gs://bucket/broken.keras''"
    by (simp add: example_defs)
  have h3: "is_remote_path example_env ''gs://bucket/broken.keras''"
    by (simp add: example_defs)
  have h4: "\<not> isdir example_env example_fs ''gs://bucket/broken.keras''"
    by (simp add: example_defs)
  have h5: "staged_copy_is_no_zip example_env example_fs ''gs://bucket/broken.keras''"
    by (simp add: example_defs staging_defs endswith_def)
  show ?thesis
    using load_model_corrupt_keras [OF h1, of example_env example_fs None True True]
      h1 h2 h3 h4 h5
    by simp
qed

text \<open>
  Claim C3, as amended. A load whose path ends with \<^verbatim>\<open>.h5\<close> or \<^verbatim>\<open>.hdf5\<close> is
  handed to \<^verbatim>\<open>legacy_h5_format.load_model_from_hdf5\<close> with the path of the request,
  and its result is the result of the reader, when the path is no remote file (it is
  local, or a remote directory), and also when it is a remote file whose copy to the
  temporary directory raised nothing and is no zip archive; in the second case the two
  staging calls come first.
\<close>

theorem load_model_legacy_suffix:
  assumes "endswith filepath ''.h5'' \<or> endswith filepath ''.hdf5''"
    and "is_remote_path env filepath \<and> \<not> isdir env w filepath \<longrightarrow>
           staged_copy_is_no_zip env w filepath"
  shows "load_model env w filepath custom_objects compile safe_mode =
           (if is_remote_path env filepath \<and> \<not> isdir env w filepath
            then (staged_world env w filepath,
                  staging_events env w filepath @ [Load_model_from_hdf5 filepath],
                  load_model_from_hdf5 env (staged_world env w filepath) filepath)
            else (w, [Load_model_from_hdf5 filepath], load_model_from_hdf5 env w filepath))"
proof -
  have nk: "\<not> endswith filepath ''.keras''"
    using assms(1) endswith_keras_not_h5 endswith_keras_not_hdf5 by blast
  have leg: "endswith_any filepath [''.h5'', ''.hdf5'']"
    using assms(1) by (simp add: endswith_any_legacy)
  show ?thesis
  proof (cases "is_remote_path env filepath \<and> \<not> isdir env w filepath")
    case True
    then have "is_staged env w filepath" using nk by (simp add: is_staged_def)
    moreover have "staged_copy_is_no_zip env w filepath" using True assms(2) by blast
    ultimately show ?thesis
      unfolding if_P [OF True] using leg by (simp add: load_model_staged load_dispatch_def)
  next
    case False
    show ?thesis
      unfolding load_model_local [OF False] if_not_P [OF False]
      using nk leg by (simp add: load_dispatch_def)
  qed
qed

text \<open>
  Claim C3 as stated fails for a remote file: \<^verbatim>\<open>gs://bucket/archive.h5\<close> ends with
  \<^verbatim>\<open>.h5\<close>, its staged copy is a zip archive, and lines 172 to 177 hand the local
  copy to \<^verbatim>\<open>saving_lib.load_model\<close>; the legacy reader is not called.
\<close>

theorem load_model_remote_h5_zip_goes_to_archive:
  "endswith ''gs://bucket/archive.h5'' ''.h5'' \<and>
   \<not> endswith ''gs://bucket/archive.h5'' ''.keras'' \<and>
   load_model example_env example_fs ''gs://bucket/archive.h5'' None True True =
     ((''/tmp/tmpk3ras/archive.h5'', ZipArchive) # example_fs,
      [Get_temp_dir,
       File_utils_copy ''gs://bucket/archive.h5'' ''/tmp/tmpk3ras/archive.h5'' True,
       Saving_lib_load_model ''/tmp/tmpk3ras/archive.h5'' None True True],
      Inr []) \<and>
   Load_model_from_hdf5 ''gs://bucket/archive.h5'' \<notin>
     set (run_trace
            (load_model example_env example_fs ''gs://bucket/archive.h5'' None True True))"
  by (simp add: load_model_def load_dispatch_def run_trace_def example_defs staging_defs
        endswith_def endswith_any_def)

theorem load_model_legacy_suffix_witness:
  "(endswith ''gs://bucket/old.hdf5'' ''.h5'' \<or> endswith ''gs://bucket/old.hdf5'' ''.hdf5'') \<and>
   is_remote_path example_env ''gs://bucket/old.hdf5'' \<and>
   \<not> isdir example_env example_fs ''gs://bucket/old.hdf5'' \<and>
   staged_copy_is_no_zip example_env example_fs ''gs://bucket/old.hdf5'' \<and>
   load_model example_env example_fs ''gs://bucket/old.hdf5'' None True True =
     ((''/tmp/tmpk3ras/old.hdf5'', Hdf5File example_h5) # example_fs,
      [Get_temp_dir,
       File_utils_copy ''gs://bucket/old.hdf5'' ''/tmp/tmpk3ras/old.hdf5'' True,
       Load_model_from_hdf5 ''gs://bucket/old.hdf5''],
      Inr [([2, 2], [1, 2, 3, 4]), ([2], [5, 6])])"
proof -
  have h1: "endswith ''gs://bucket/old.hdf5'' ''.h5'' \<or> endswith ''gs://bucket/old.hdf5'' ''.hdf5''"
    by (simp add: endswith_def)
  have h2: "is_remote_path example_env ''gs://bucket/old.hdf5''"
    by (simp add: example_defs)
  have h3: "\<not> isdir example_env example_fs ''gs://bucket/old.hdf5''"
    by (simp add: example_defs)
  have h4: "staged_copy_is_no_zip example_env example_fs ''gs://bucket/old.hdf5''"
    by (simp add: example_defs staging_defs endswith_def)
  have h5: "is_remote_path example_env ''gs://bucket/old.hdf5'' \<and>
      \<not> isdir example_env example_fs ''gs://bucket/old.hdf5'' \<longrightarrow>
      staged_copy_is_no_zip example_env example_fs ''gs://bucket/old.hdf5''"
    using h4 by blast
  show ?thesis
    using load_model_legacy_suffix [OF h1 h5, of None True True] h1 h2 h3 h4
    by (simp add: example_defs staging_defs endswith_def weights_root_def)
qed

text \<open>
  Claim C9. When \<^verbatim>\<open>load_model\<close> stages a remote file that is no directory and the
  staged copy is no zip archive, the dispatch that follows uses the path of the request,
  not the local path of the copy: the legacy reader is called with it, and the two error
  messages name it.
\<close>

theorem load_model_after_staging_uses_remote_path:
  assumes "is_staged env w filepath"
    and "staged_copy_is_no_zip env w filepath"
  shows "load_model env w filepath custom_objects compile safe_mode =
           (let w2 = staged_world env w filepath;
                tr = staging_events env w filepath
            in
            if endswith_any filepath [''.h5'', ''.hdf5''] then
              (w2, tr @ [Load_model_from_hdf5 filepath], load_model_from_hdf5 env w2 filepath)
            else if endswith filepath ''.keras'' then
              (w2, tr, Inl (ValueError (file_not_found_msg filepath)))
            else (w2, tr, Inl (ValueError (format_not_supported_msg filepath))))"
  unfolding load_model_staged [OF assms] load_dispatch_def Let_def by simp

theorem load_model_after_staging_uses_remote_path_witness:
  "is_staged example_env example_fs ''gs://bucket/model.h5'' \<and>
   staged_copy_is_no_zip example_env example_fs ''gs://bucket/model.h5'' \<and>
   load_model example_env example_fs ''gs://bucket/model.h5'' None True True =
     ((''/tmp/tmpk3ras/model.h5'', Hdf5File example_h5) # example_fs,
      [Get_temp_dir,
       File_utils_copy ''gs://bucket/model.h5'' ''/tmp/tmpk3ras/model.h5'' True,
       Load_model_from_hdf5 ''gs://bucket/model.h5''],
      Inr [([2, 2], [1, 2, 3, 4]), ([2], [5, 6])])"
proof -
  have h1: "is_staged example_env example_fs ''gs://bucket/model.h5''"
    by (simp add: example_defs staging_defs endswith_def)
  have h2: "staged_copy_is_no_zip example_env example_fs ''gs://bucket/model.h5''"
    by (simp add: example_defs staging_defs endswith_def)
  show ?thesis
    using load_model_after_staging_uses_remote_path [OF h1 h2, of None True True] h1 h2
    by (simp add: example_defs staging_defs endswith_def endswith_any_def weights_root_def)
qed

text \<open>
  Claim C2, as amended. For a path whose suffix is none of \<^verbatim>\<open>.keras\<close>,
  \<^verbatim>\<open>.weights.h5\<close>, \<^verbatim>\<open>.h5\<close>, \<^verbatim>\<open>.hdf5\<close>: \<^verbatim>\<open>save_model\<close> raises a
  \<^verbatim>\<open>ValueError\<close> with the file system unchanged and an empty trace (the error of
  line 68 when \<^verbatim>\<open>save_format\<close> is passed with a true value, else that of line 75
  when an unsupported keyword is passed, else the unsupported-format error of line 105);
  \<^verbatim>\<open>load_model\<close> raises the unsupported-format error of line 192 with the file
  system unchanged and an empty trace when the path is not a remote file; for a remote
  path that is no directory it first stages the file in the temporary directory, and
  raises the unsupported-format error afterwards, when the staged copy is no zip archive.
\<close>

theorem unsupported_suffix_rejected:
  assumes "\<not> endswith_any filepath [''.keras'', ''.weights.h5'', ''.h5'', ''.hdf5'']"
  shows "save_model env w model filepath overwrite kwargs =
           (let save_format = kw_get kwargs ''save_format'' (PyBool False);
                rest = kw_del (kw_del kwargs ''include_optimizer'') ''save_format''
            in (w, [],
                Inl (ValueError
                  (if truthy save_format then save_format_error_msg save_format
                   else if rest \<noteq> [] then unsupported_arguments_msg env rest
                   else invalid_extension_msg filepath))))
       \<and> (\<not> (is_remote_path env filepath \<and> \<not> isdir env w filepath) \<longrightarrow>
            load_model env w filepath custom_objects compile safe_mode =
              (w, [], Inl (ValueError (format_not_supported_msg filepath))))
       \<and> (is_remote_path env filepath \<and> \<not> isdir env w filepath \<and>
            staged_copy_is_no_zip env w filepath \<longrightarrow>
            load_model env w filepath custom_objects compile safe_mode =
              (staged_world env w filepath, staging_events env w filepath,
               Inl (ValueError (format_not_supported_msg filepath))))"
proof -
  from assms have nk: "\<not> endswith filepath ''.keras''"
    and nl: "\<not> endswith_any filepath [''.h5'', ''.hdf5'']"
    by (simp_all add: endswith_any_def)
  have b: "load_model env w filepath custom_objects compile safe_mode =
              (w, [], Inl (ValueError (format_not_supported_msg filepath)))"
    if "\<not> (is_remote_path env filepath \<and> \<not> isdir env w filepath)"
    unfolding load_model_local [OF that] using nk nl by (simp add: load_dispatch_def)
  have c: "load_model env w filepath custom_objects compile safe_mode =
              (staged_world env w filepath, staging_events env w filepath,
               Inl (ValueError (format_not_supported_msg filepath)))"
    if "is_remote_path env filepath \<and> \<not> isdir env w filepath \<and>
            staged_copy_is_no_zip env w filepath"
  proof -
    from that nk have "is_staged env w filepath" by (simp add: is_staged_def)
    moreover from that have "staged_copy_is_no_zip env w filepath" by blast
    ultimately show ?thesis
      using nk nl by (simp add: load_model_staged load_dispatch_def)
  qed
  note a = save_model_unsupported_suffix [OF assms, of env w model overwrite kwargs]
  show ?thesis
    apply (intro conjI impI)
      apply (rule a)
     apply (erule b)
    apply (erule c)
    done
qed

text \<open>
  Claim C2 as stated fails for \<^verbatim>\<open>load_model\<close>: on the remote path
  \<^verbatim>\<open>gs://bucket/notes.txt\<close> the call creates the temporary directory and copies the
  file into it (lines 164 to 169) before it raises the unsupported-format error, so the
  file system after the call is not the one before it.
\<close>

theorem unsupported_suffix_load_copies_first:
  "\<not> endswith_any ''gs://bucket/notes.txt'' [''.keras'', ''.weights.h5'', ''.h5'', ''.hdf5''] \<and>
   load_model example_env example_fs ''gs://bucket/notes.txt'' None True True =
     ((''/tmp/tmpk3ras/notes.txt'', OtherBytes ''hello'') # example_fs,
      [Get_temp_dir,
       File_utils_copy ''gs://bucket/notes.txt'' ''/tmp/tmpk3ras/notes.txt'' True],
      Inl (ValueError (format_not_supported_msg ''gs://bucket/notes.txt''))) \<and>
   run_world (load_model example_env example_fs ''gs://bucket/notes.txt'' None True True) \<noteq>
     example_fs"
  by (simp add: load_model_def load_dispatch_def run_world_def example_defs staging_defs
        endswith_def endswith_any_def)

theorem unsupported_suffix_rejected_witness:
  "\<not> endswith_any ''notes.txt'' [''.keras'', ''.weights.h5'', ''.h5'', ''.hdf5''] \<and>
   \<not> (is_remote_path example_env ''notes.txt'' \<and> \<not> isdir example_env example_fs ''notes.txt'') \<and>
   save_model example_env example_fs example_model ''notes.txt'' True [] =
     (example_fs, [], Inl (ValueError (invalid_extension_msg ''notes.txt''))) \<and>
   load_model example_env example_fs ''notes.txt'' None True True =
     (example_fs, [], Inl (ValueError (format_not_supported_msg ''notes.txt''))) \<and>
   \<not> endswith_any ''gs://bucket/notes.txt'' [''.keras'', ''.weights.h5'', ''.h5'', ''.hdf5''] \<and>
   is_remote_path example_env ''gs://bucket/notes.txt'' \<and>
   \<not> isdir example_env example_fs ''gs://bucket/notes.txt'' \<and>
   staged_copy_is_no_zip example_env example_fs ''gs://bucket/notes.txt'' \<and>
   load_model example_env example_fs ''gs://bucket/notes.txt'' None True True =
     (staged_world example_env example_fs ''gs://bucket/notes.txt'',
      staging_events example_env example_fs ''gs://bucket/notes.txt'',
      Inl (ValueError (format_not_supported_msg ''gs://bucket/notes.txt'')))"
proof -
  have h1: "\<not> endswith_any ''notes.txt'' [''.keras'', ''.weights.h5'', ''.h5'', ''.hdf5'']"
    by (simp add: endswith_any_def endswith_def)
  have h2: "\<not> (is_remote_path example_env ''notes.txt'' \<and>
               \<not> isdir example_env example_fs ''notes.txt'')"
    by (simp add: example_defs)
  have h3: "\<not> endswith_any ''gs://bucket/notes.txt''
               [''.keras'', ''.weights.h5'', ''.h5'', ''.hdf5'']"
    by (simp add: endswith_any_def endswith_def)
  have h4: "is_remote_path example_env ''gs://bucket/notes.txt''"
    by (simp add: example_defs)
  have h5: "\<not> isdir example_env example_fs ''gs://bucket/notes.txt''"
    by (simp add: example_defs)
  have h6: "staged_copy_is_no_zip example_env example_fs ''gs://bucket/notes.txt''"
    by (simp add: example_defs staging_defs endswith_def)
  show ?thesis
    using unsupported_suffix_rejected
            [OF h1, of example_env example_fs example_model True "[]" None True True]
          unsupported_suffix_rejected
            [OF h3, of example_env example_fs example_model True "[]" None True True]
          h1 h2 h3 h4 h5 h6
    by (simp add: kw_get_def kw_del_def dict_pop_def)
qed

section \<open>Loading weights\<close>

text \<open>
  Claim C4, as amended. In the legacy branch of \<^verbatim>\<open>load_weights\<close> (a path that ends
  with \<^verbatim>\<open>.h5\<close> or \<^verbatim>\<open>.hdf5\<close> and not with \<^verbatim>\<open>.weights.h5\<close>) with
  \<^verbatim>\<open>by_name\<close> absent or false, \<^verbatim>\<open>skip_mismatch\<close> has no effect: the run is the
  same for every value of the flag, and the by-position reader is called with the file
  handle and the model only (line 230). What a mismatch does is what that reader does
  without the flag. Only the by-name reader receives \<^verbatim>\<open>skip_mismatch\<close> (line 226).
\<close>

theorem load_weights_by_position_ignores_skip_mismatch:
  assumes "endswith filepath ''.h5'' \<or> endswith filepath ''.hdf5''"
    and "\<not> endswith filepath ''.weights.h5''"
    and "\<not> truthy (kw_get kwargs ''by_name'' (PyBool False))"
  shows "load_weights env w model filepath skip_mismatch kwargs =
           load_weights env w model filepath skip_mismatch' kwargs
       \<and> (only_keys [''by_name''] kwargs \<and> h5py env = Some h5py_File \<and>
          h5py_File w filepath = Inr f0 \<longrightarrow>
            load_weights env w model filepath skip_mismatch kwargs =
              (case load_weights_from_hdf5_group env (weights_root f0) model of
                 (model', r) \<Rightarrow>
                   (model',
                    [H5py_File filepath ''r'',
                     Load_weights_from_hdf5_group (weights_root f0) model],
                    raised_or_done r)))"
proof -
  have nk: "\<not> endswith filepath ''.keras''"
    using assms(1) endswith_keras_not_h5 endswith_keras_not_hdf5 by blast
  have bn: "\<not> truthy (case map_of kwargs ''by_name'' of Some v \<Rightarrow> v | None \<Rightarrow> PyBool False)"
    using assms(3) by (simp add: kw_get_def dict_pop_def)
  have a: "load_weights env w model filepath skip_mismatch kwargs =
           load_weights env w model filepath skip_mismatch' kwargs"
    unfolding load_weights_def dict_pop_def
    using nk assms(1,2) bn by (simp add: Let_def split: option.splits sum.splits)
  have b: "load_weights env w model filepath skip_mismatch kwargs =
              (case load_weights_from_hdf5_group env (weights_root f0) model of
                 (model', r) \<Rightarrow>
                   (model',
                    [H5py_File filepath ''r'',
                     Load_weights_from_hdf5_group (weights_root f0) model],
                    raised_or_done r))"
    if "only_keys [''by_name''] kwargs \<and> h5py env = Some h5py_File \<and>
          h5py_File w filepath = Inr f0"
  proof -
    from that have rest: "filter (\<lambda>kv. fst kv \<noteq> ''by_name'') kwargs = []"
      by (simp only: filter_key_empty)
    show ?thesis
      unfolding load_weights_def dict_pop_def
      using nk assms(1,2) bn rest that by (simp add: Let_def)
  qed
  from a b show ?thesis by blast
qed

text \<open>
  Claim C4 as stated fails: with \<^verbatim>\<open>skip_mismatch=True\<close>, a stored kernel of shape
  \<open>[2, 2]\<close> against a live kernel of shape \<open>[3, 2]\<close> at position 0 aborts the load
  with the error of the by-position reader; the bias at position 1, whose shape matches,
  is not loaded, and the model is what it was.
\<close>

theorem by_position_mismatch_aborts_with_skip_mismatch:
  "load_weights example_env example_fs example_model ''weights.h5'' True [] =
     (example_model,
      [H5py_File ''weights.h5'' ''r'',
       Load_weights_from_hdf5_group
         (H5Group [''layer_names'']
            [(''dense/kernel'', H5Dataset [2, 2] [1, 2, 3, 4]),
             (''dense/bias'', H5Dataset [2] [5, 6])])
         example_model],
      Inl (ValueError ''ShapeMismatch''))"
  by (simp add: load_weights_def dict_pop_def weights_root_def example_defs endswith_def
        raised_or_done_def)

theorem load_weights_by_position_ignores_skip_mismatch_witness:
  "(endswith ''weights.h5'' ''.h5'' \<or> endswith ''weights.h5'' ''.hdf5'') \<and>
   \<not> endswith ''weights.h5'' ''.weights.h5'' \<and>
   \<not> truthy (kw_get [] ''by_name'' (PyBool False)) \<and>
   only_keys [''by_name''] [] \<and>
   h5py example_env = Some example_open_h5 \<and>
   example_open_h5 example_fs ''weights.h5'' = Inr example_h5 \<and>
   load_weights example_env example_fs example_model ''weights.h5'' True [] =
     load_weights example_env example_fs example_model ''weights.h5'' False [] \<and>
   load_weights example_env example_fs example_model ''weights.h5'' True [] =
     (example_model,
      [H5py_File ''weights.h5'' ''r'',
       Load_weights_from_hdf5_group (weights_root example_h5) example_model],
      Inl (ValueError ''ShapeMismatch''))"
proof -
  have h1: "endswith ''weights.h5'' ''.h5'' \<or> endswith ''weights.h5'' ''.hdf5''"
    by (simp add: endswith_def)
  have h2: "\<not> endswith ''weights.h5'' ''.weights.h5''"
    by (simp add: endswith_def)
  have h3: "\<not> truthy (kw_get [] ''by_name'' (PyBool False))"
    by (simp add: kw_get_def dict_pop_def)
  have h4: "only_keys [''by_name''] []" by (simp add: only_keys_def)
  have h5: "h5py example_env = Some example_open_h5" by (simp add: example_env_def)
  have h6: "example_open_h5 example_fs ''weights.h5'' = Inr example_h5"
    by (simp add: example_open_h5_def example_fs_def)
  have r: "load_weights_from_hdf5_group example_env (weights_root example_h5) example_model =
      (example_model, Some (ValueError ''ShapeMismatch''))"
    by (simp add: example_env_def read_weights_by_position_def weights_root_def example_h5_def
          example_model_def)
  note t = load_weights_by_position_ignores_skip_mismatch
            [OF h1 h2 h3, of example_env example_fs example_model True False
               example_open_h5 example_h5]
  from t have a: "load_weights example_env example_fs example_model ''weights.h5'' True [] =
      load_weights example_env example_fs example_model ''weights.h5'' False []"
    by (rule conjunct1)
  from t h4 h5 h6 have "load_weights example_env example_fs example_model ''weights.h5'' True [] =
      (case load_weights_from_hdf5_group example_env (weights_root example_h5) example_model of
         (model', r) \<Rightarrow>
           (model',
            [H5py_File ''weights.h5'' ''r'',
             Load_weights_from_hdf5_group (weights_root example_h5) example_model],
            raised_or_done r))"
    by blast
  then have b: "load_weights example_env example_fs example_model ''weights.h5'' True [] =
     (example_model,
      [H5py_File ''weights.h5'' ''r'',
       Load_weights_from_hdf5_group (weights_root example_h5) example_model],
      Inl (ValueError ''ShapeMismatch''))"
    unfolding r by (simp add: raised_or_done_def)
  from h1 h2 h3 h4 h5 h6 a b show ?thesis by (intro conjI)
qed

text \<open>
  Claim C8. In the legacy branch of \<^verbatim>\<open>load_weights\<close> (a path that ends with
  \<^verbatim>\<open>.h5\<close> or \<^verbatim>\<open>.hdf5\<close> and not with \<^verbatim>\<open>.weights.h5\<close>), when \<^verbatim>\<open>h5py\<close> could
  not be imported, the call raises \<^verbatim>\<open>ImportError\<close>, which is not \<^verbatim>\<open>OSError\<close>,
  with a message that names \<^verbatim>\<open>h5py\<close>; the trace is empty, so no file is opened, and
  the model is unchanged. The request carries no keyword argument but \<^verbatim>\<open>by_name\<close>
  (any other is rejected at line 216, before the check of \<^verbatim>\<open>h5py\<close>).
\<close>

theorem load_weights_h5py_missing:
  assumes "endswith filepath ''.h5'' \<or> endswith filepath ''.hdf5''"
    and "\<not> endswith filepath ''.weights.h5''"
    and "only_keys [''by_name''] kwargs"
    and "h5py env = None"
  shows "load_weights env w model filepath skip_mismatch kwargs =
           (model, [], Inl (ImportError h5py_missing_msg))
       \<and> h5py_missing_msg = ''Loading a H5 file requires `'' @ ''h5py'' @ ''` to be installed.''
       \<and> (\<forall>msg. ImportError h5py_missing_msg \<noteq> OSError msg)"
proof -
  have nk: "\<not> endswith filepath ''.keras''"
    using assms(1) endswith_keras_not_h5 endswith_keras_not_hdf5 by blast
  have rest: "filter (\<lambda>kv. fst kv \<noteq> ''by_name'') kwargs = []"
    using assms(3) by (simp only: filter_key_empty)
  show ?thesis
    unfolding load_weights_def dict_pop_def
    using nk assms(1,2,4) rest by (simp add: h5py_missing_msg_def)
qed

theorem load_weights_h5py_missing_witness:
  "(endswith ''weights.h5'' ''.h5'' \<or> endswith ''weights.h5'' ''.hdf5'') \<and>
   \<not> endswith ''weights.h5'' ''.weights.h5'' \<and>
   only_keys [''by_name''] [(''by_name'', PyBool True)] \<and>
   h5py example_env_without_h5py = None \<and>
   load_weights example_env_without_h5py example_fs example_model ''weights.h5'' False
     [(''by_name'', PyBool True)] =
     (example_model, [], Inl (ImportError h5py_missing_msg))"
proof -
  have h1: "endswith ''weights.h5'' ''.h5'' \<or> endswith ''weights.h5'' ''.hdf5''"
    by (simp add: endswith_def)
  have h2: "\<not> endswith ''weights.h5'' ''.weights.h5''"
    by (simp add: endswith_def)
  have h3: "only_keys [''by_name''] [(''by_name'', PyBool True)]"
    by (simp add: only_keys_def)
  have h4: "h5py example_env_without_h5py = None"
    by (simp add: example_env_without_h5py_def)
  show ?thesis
    using load_weights_h5py_missing
            [OF h1 h2 h3 h4, of example_fs example_model False]
          h1 h2 h3 h4
    by simp
qed

end
